theory Spec2Isabelle
  imports Complex_Main
begin

section \<open>The Alicat driver: transport client and device sessions\<close>

text \<open>
  A shallow embedding of \<^verbatim>\<open>alicat/util.py\<close> (the reconnecting transport client) and
  \<^verbatim>\<open>alicat/driver.py\<close> (\<^verbatim>\<open>FlowMeter\<close> and \<^verbatim>\<open>FlowController\<close>).

  Conventions of the model.
  \<^item> Python strings are \<open>string\<close>; the protocol is ASCII.
  \<^item> Python exceptions are values of the datatype \<open>error\<close>; a method returns a pair of
    its outcome (\<open>Inl\<close> the exception, \<open>Inr\<close> the result) and the object after the call.
  \<^item> The outside world (the serial link and the device behind it) is the field \<open>link\<close>
    of the client: what happens at the n-th call of \<^verbatim>\<open>_write_and_read\<close>. Everything the
    client writes to its stream is appended to the field \<open>written\<close>.
  \<^item> Python floats are modelled as exact rationals: \<^verbatim>\<open>float(tok)\<close> reads a plain decimal
    literal, and arithmetic and comparisons are exact (no binary rounding).
\<close>

subsection \<open>Python built-ins used by the driver\<close>

text \<open>\<^verbatim>\<open>str.isspace\<close> on the code points below 256.\<close>

definition isspace :: "char \<Rightarrow> bool" where
  "isspace c = (of_char c \<in> set [9, 10, 11, 12, 13, 28, 29, 30, 31, 32, 133, 160 :: nat])"

text \<open>\<^verbatim>\<open>str.split()\<close> without a separator: the maximal runs of non-blank characters.\<close>

fun split_ws :: "string \<Rightarrow> string \<Rightarrow> string list" where
  "split_ws cur [] = (if cur = [] then [] else [cur])"
| "split_ws cur (c # cs) =
     (if isspace c then (if cur = [] then split_ws [] cs else cur # split_ws [] cs)
      else split_ws (cur @ [c]) cs)"

definition py_split :: "string \<Rightarrow> string list" where
  "py_split s = split_ws [] s"

text \<open>\<^verbatim>\<open>s.split(sep)[-1]\<close> for a one-character separator: what follows the last
  separator, the whole string when there is none.\<close>

fun after_last :: "char \<Rightarrow> string \<Rightarrow> string" where
  "after_last sep [] = []"
| "after_last sep (c # cs) = (if sep \<in> set cs then after_last sep cs
     else if c = sep then cs else c # cs)"

text \<open>\<^verbatim>\<open>str.strip()\<close>.\<close>

definition py_strip :: "string \<Rightarrow> string" where
  "py_strip s = rev (dropWhile isspace (rev (dropWhile isspace s)))"

text \<open>\<^verbatim>\<open>str.upper()\<close> on ASCII letters; other characters are left alone. (No character
  outside ASCII has an upper-case form made of the letters the driver compares with.)\<close>

definition upper_char :: "char \<Rightarrow> char" where
  "upper_char c = (case map_of (zip ''abcdefghijklmnopqrstuvwxyz'' ''ABCDEFGHIJKLMNOPQRSTUVWXYZ'') c of
     None \<Rightarrow> c | Some u \<Rightarrow> u)"

definition upper :: "string \<Rightarrow> string" where
  "upper s = map upper_char s"

text \<open>Decimal digits.\<close>

definition digit_val :: "char \<Rightarrow> nat option" where
  "digit_val c = map_of [(CHR ''0'', 0), (CHR ''1'', 1), (CHR ''2'', 2), (CHR ''3'', 3),
     (CHR ''4'', 4), (CHR ''5'', 5), (CHR ''6'', 6), (CHR ''7'', 7), (CHR ''8'', 8),
     (CHR ''9'', 9)] c"

definition is_digit :: "char \<Rightarrow> bool" where
  "is_digit c = (digit_val c \<noteq> None)"

fun digits_val :: "nat \<Rightarrow> string \<Rightarrow> nat" where
  "digits_val acc [] = acc"
| "digits_val acc (c # cs) = digits_val (10 * acc + the (digit_val c)) cs"

text \<open>A sign in front of a literal: the factor and the rest.\<close>

fun signed :: "string \<Rightarrow> int \<times> string" where
  "signed (c # cs) = (if c = CHR ''-'' then (-1, cs) else if c = CHR ''+'' then (1, cs)
     else (1, c # cs))"
| "signed [] = (1, [])"

text \<open>\<^verbatim>\<open>int(s)\<close>: blanks around, an optional sign, decimal digits; \<open>None\<close> is the
  \<^verbatim>\<open>ValueError\<close>. (Digit-group underscores are not modelled.)\<close>

definition py_int :: "string \<Rightarrow> int option" where
  "py_int s = (let (sg, ds) = signed (py_strip s) in
     if ds \<noteq> [] \<and> list_all is_digit ds then Some (sg * int (digits_val 0 ds)) else None)"

text \<open>\<^verbatim>\<open>float(s)\<close> on plain decimal literals: an optional sign, digits with an optional
  fraction, or a fraction alone; \<open>None\<close> is the \<^verbatim>\<open>ValueError\<close>. (Exponents,
  \<^verbatim>\<open>inf\<close> and \<^verbatim>\<open>nan\<close> are not modelled: the device prints fixed-point numbers.)\<close>

definition py_float :: "string \<Rightarrow> rat option" where
  "py_float s = (let (sg, body) = signed (py_strip s);
       ip = takeWhile is_digit body; rest = dropWhile is_digit body in
     if rest = [] then
       (if ip = [] then None else Some (of_int sg * of_nat (digits_val 0 ip)))
     else if hd rest = CHR ''.'' \<and> list_all is_digit (tl rest) \<and> (ip \<noteq> [] \<or> tl rest \<noteq> []) then
       Some (of_int sg * (of_nat (digits_val 0 ip)
              + of_nat (digits_val 0 (tl rest)) / 10 ^ length (tl rest)))
     else None)"

text \<open>\<^verbatim>\<open>str(n)\<close> for integers.\<close>

fun str_nat :: "nat \<Rightarrow> string" where
  "str_nat n = (if n < 10 then [''0123456789'' ! n]
     else str_nat (n div 10) @ [''0123456789'' ! (n mod 10)])"

declare str_nat.simps [simp del]

definition str_int :: "int \<Rightarrow> string" where
  "str_int i = (if i < 0 then ''-'' @ str_nat (nat (- i)) else str_nat (nat i))"

text \<open>The format \<^verbatim>\<open>{x:.2f}\<close>: two decimals, rounded to nearest, ties to even.\<close>

definition fmt2 :: "rat \<Rightarrow> string" where
  "fmt2 x = (let a = \<bar>x\<bar> * 100; f = \<lfloor>a\<rfloor>; r = a - of_int f;
       n = nat (if 1 / 2 < r \<or> (r = 1 / 2 \<and> odd f) then f + 1 else f) in
     (if x < 0 then ''-'' else '''') @ str_nat (n div 100)
       @ ''.'' @ [''0123456789'' ! (n mod 100 div 10), ''0123456789'' ! (n mod 10)])"

text \<open>\<^verbatim>\<open>sep.join(parts)\<close>.\<close>

fun join :: "string \<Rightarrow> string list \<Rightarrow> string" where
  "join sep [] = []"
| "join sep [p] = p"
| "join sep (p # q # ps) = p @ sep @ join sep (q # ps)"

text \<open>\<^verbatim>\<open>needle in haystack\<close> on strings.\<close>

fun starts_with :: "string \<Rightarrow> string \<Rightarrow> bool" where
  "starts_with [] s = True"
| "starts_with (p # ps) [] = False"
| "starts_with (p # ps) (c # cs) = (p = c \<and> starts_with ps cs)"

fun contains :: "string \<Rightarrow> string \<Rightarrow> bool" where
  "contains needle [] = (needle = [])"
| "contains needle (c # cs) = (starts_with needle (c # cs) \<or> contains needle cs)"

text \<open>\<^verbatim>\<open>xs.index(x)\<close>, used only after \<^verbatim>\<open>x in xs\<close> has been checked.\<close>

fun index :: "'a list \<Rightarrow> 'a \<Rightarrow> nat" where
  "index [] x = 0"
| "index (y # ys) x = (if y = x then 0 else Suc (index ys x))"

text \<open>A \<^verbatim>\<open>dict\<close> in insertion order: storing under a key that is present replaces the
  value in place, a new key goes to the end.\<close>

fun dict_set :: "'k \<Rightarrow> 'v \<Rightarrow> ('k \<times> 'v) list \<Rightarrow> ('k \<times> 'v) list" where
  "dict_set k v [] = [(k, v)]"
| "dict_set k v (p # ps) = (if fst p = k then (k, v) # ps else p # dict_set k v ps)"

definition dict_of :: "('k \<times> 'v) list \<Rightarrow> ('k \<times> 'v) list" where
  "dict_of kvs = foldl (\<lambda>d (k, v). dict_set k v d) [] kvs"

subsection \<open>\<^verbatim>\<open>util.Client\<close>\<close>

text \<open>What the link does when the client tries to connect (\<^verbatim>\<open>_handle_connection\<close>):
  the connection opens and the stale bytes are drained; it opens but draining raises
  one of the caught errors; or opening fails or times out.\<close>

datatype conn_result = Connected | ClearFailed | ConnectFailed

text \<open>What the link does on one exchange (\<^verbatim>\<open>_handle_communication\<close>): a line arrives;
  the write raises or the read raises or times out (\<^verbatim>\<open>TimeoutError\<close>, \<^verbatim>\<open>TypeError\<close>,
  \<^verbatim>\<open>OSError\<close>); or the read ends with \<^verbatim>\<open>IncompleteReadError\<close>.\<close>

datatype comm_result = Line string | WriteFailed | ReadFailed | IncompleteRead

record client =
  open_hw :: bool
  timeouts :: nat
  max_timeouts :: nat
  reconnecting :: bool
  eol :: string
  link :: "nat \<Rightarrow> conn_result \<times> comm_result"
  exchanges :: nat
  written :: "string list"

text \<open>\<^verbatim>\<open>Client.__init__\<close>, on a given link.\<close>

definition new_client :: "(nat \<Rightarrow> conn_result \<times> comm_result) \<Rightarrow> client" where
  "new_client l = \<lparr>open_hw = False, timeouts = 0, max_timeouts = 10, reconnecting = False,
     eol = [CHR 0x0D], link = l, exchanges = 0, written = []\<rparr>"

definition close_hw :: "client \<Rightarrow> client" where
  "close_hw c = c\<lparr>open_hw := False\<rparr>"

definition handle_connection :: "client \<Rightarrow> conn_result \<Rightarrow> client" where
  "handle_connection c r =
     (if open_hw c then c
      else case r of
        Connected \<Rightarrow> c\<lparr>open_hw := True, reconnecting := False\<rparr>
      | ClearFailed \<Rightarrow> c\<lparr>open_hw := True, reconnecting := True\<rparr>
      | ConnectFailed \<Rightarrow> (close_hw c)\<lparr>reconnecting := True\<rparr>)"

definition write_hw :: "client \<Rightarrow> string \<Rightarrow> client" where
  "write_hw c message = c\<lparr>written := written c @ [message @ eol c]\<rparr>"

definition timed_out :: "client \<Rightarrow> client" where
  "timed_out c = (let c1 = c\<lparr>timeouts := timeouts c + 1\<rparr> in
     if timeouts c1 = max_timeouts c1 then close_hw c1 else c1)"

text \<open>\<^verbatim>\<open>_handle_communication\<close>; the third component tells that
  \<^verbatim>\<open>IncompleteReadError\<close> leaves the method.\<close>

definition handle_communication ::
  "client \<Rightarrow> comm_result \<Rightarrow> string \<Rightarrow> string option \<times> client \<times> bool" where
  "handle_communication c r command =
     (case r of
        Line result \<Rightarrow> (Some result, (write_hw c command)\<lparr>timeouts := 0\<rparr>, False)
      | WriteFailed \<Rightarrow> (None, timed_out c, False)
      | ReadFailed \<Rightarrow> (None, timed_out (write_hw c command), False)
      | IncompleteRead \<Rightarrow> (None, write_hw c command, True))"

definition write_and_read :: "client \<Rightarrow> string \<Rightarrow> string option \<times> client" where
  "write_and_read c command =
     (let (cr, r) = link c (exchanges c);
          c1 = handle_connection (c\<lparr>exchanges := Suc (exchanges c)\<rparr>) cr in
      if open_hw c1 then
        (case handle_communication c1 r command of
           (response, c2, incomplete) \<Rightarrow> if incomplete then (None, c2) else (response, c2))
      else (None, c1))"

text \<open>A link given by the list of its first events; after them every connection attempt
  fails. Used to run the model on concrete sessions.\<close>

fun script :: "(conn_result \<times> comm_result) list \<Rightarrow> nat \<Rightarrow> conn_result \<times> comm_result" where
  "script [] n = (ConnectFailed, ReadFailed)"
| "script (e # es) 0 = e"
| "script (e # es) (Suc n) = script es n"



subsection \<open>\<^verbatim>\<open>driver.FlowMeter\<close>\<close>

text \<open>The exceptions the driver raises or lets through, each with its Python class.\<close>

datatype error =
    NotOpenError              \<comment> \<open>\<^verbatim>\<open>OSError\<close>: the FlowMeter ... is not open\<close>
  | UnitMismatch              \<comment> \<open>\<^verbatim>\<open>ValueError\<close>: Flow controller unit ID mismatch.\<close>
  | GasNotSupported           \<comment> \<open>\<^verbatim>\<open>ValueError\<close>: ... not supported!\<close>
  | CannotSetGas              \<comment> \<open>\<^verbatim>\<open>OSError\<close>: Cannot set gas.\<close>
  | ComposerUnsupported       \<comment> \<open>\<^verbatim>\<open>OSError\<close>: This unit does not support COMPOSER gas mixes.\<close>
  | MixNumberRange            \<comment> \<open>\<^verbatim>\<open>ValueError\<close>: Mix number must be between 236-255!\<close>
  | MixPercentages            \<comment> \<open>\<^verbatim>\<open>ValueError\<close>: Percentages of gas mix must add to 100%!\<close>
  | UnableToCreateMix         \<comment> \<open>\<^verbatim>\<open>OSError\<close>: Unable to create mix.\<close>
  | CouldNotSetSetpoint       \<comment> \<open>\<^verbatim>\<open>OSError\<close>: Could not set setpoint.\<close>
  | BadControlPoint           \<comment> \<open>\<^verbatim>\<open>ValueError\<close>: Control point must be ...\<close>
  | CouldNotSetControlPoint   \<comment> \<open>\<^verbatim>\<open>OSError\<close>: Could not set control point.\<close>
  | NotANumber                \<comment> \<open>\<^verbatim>\<open>ValueError\<close> of \<^verbatim>\<open>int()\<close> or \<^verbatim>\<open>float()\<close>\<close>
  | IndexError
  | AttributeError            \<comment> \<open>a method of \<^verbatim>\<open>None\<close> is called\<close>
  | TypeError                 \<comment> \<open>\<^verbatim>\<open>in\<close> on \<^verbatim>\<open>None\<close>\<close>



text \<open>A value of the mapping \<^verbatim>\<open>get\<close> returns: a float or the token itself.\<close>

datatype py_value = Num rat | Str string

definition coerce :: "string \<Rightarrow> py_value" where
  "coerce v = (case py_float v of Some x \<Rightarrow> Num x | None \<Rightarrow> Str v)"

definition gases :: "string list" where
  "gases = [''Air'', ''Ar'', ''CH4'', ''CO'', ''CO2'', ''C2H6'', ''H2'', ''He'',
            ''N2'', ''N2O'', ''Ne'', ''O2'', ''C3H8'', ''n-C4H10'', ''C2H2'',
            ''C2H4'', ''i-C2H10'', ''Kr'', ''Xe'', ''SF6'', ''C-25'', ''C-10'',
            ''C-8'', ''C-2'', ''C-75'', ''A-75'', ''A-25'', ''A1025'', ''Star29'',
            ''P-5'']"

text \<open>The object: \<open>open_m\<close> is \<^verbatim>\<open>FlowMeter.open\<close> (\<open>open_hw\<close> is the client's),
  \<open>unit_id\<close> is \<^verbatim>\<open>unit\<close>; \<open>button_lock\<close> is \<open>None\<close> until \<^verbatim>\<open>get\<close> sets the
  attribute.\<close>

record flow_meter =
  hw :: client
  unit_id :: string
  keys :: "string list"
  open_m :: bool
  firmware :: "string option"
  button_lock :: "bool option"

definition baseline_keys :: "string list" where
  "baseline_keys = [''pressure'', ''temperature'', ''volumetric_flow'', ''mass_flow'',
                    ''setpoint'', ''gas'']"

text \<open>\<^verbatim>\<open>FlowMeter.__init__\<close>, on a given link.\<close>

definition new_flow_meter :: "(nat \<Rightarrow> conn_result \<times> comm_result) \<Rightarrow> string \<Rightarrow> flow_meter" where
  "new_flow_meter l u = \<lparr>hw = new_client l, unit_id = u, keys = baseline_keys, open_m = True,
     firmware = None, button_lock = None\<rparr>"

text \<open>The loop \<^verbatim>\<open>while values[-1].upper() in ['MOV', 'VOV', 'POV']: del values[-1]\<close>;
  \<^verbatim>\<open>values[-1]\<close> on the empty list raises.\<close>

function strip_overrange :: "string list \<Rightarrow> error + string list" where
  "strip_overrange values =
     (if values = [] then Inl IndexError
      else if upper (last values) \<in> set [''MOV'', ''VOV'', ''POV'']
        then strip_overrange (butlast values)
      else Inr values)"
  by pat_completeness auto
termination
  by (relation "measure length") auto

declare strip_overrange.simps [simp del]

text \<open>\<^verbatim>\<open>del ks[-2]\<close> and \<^verbatim>\<open>ks.insert(i, k)\<close>, on a list of at least two elements and at
  an index within the list.\<close>

definition del_second_last :: "'a list \<Rightarrow> 'a list" where
  "del_second_last ks = take (length ks - 2) ks @ drop (length ks - 1) ks"

definition insert_at :: "nat \<Rightarrow> 'a \<Rightarrow> 'a list \<Rightarrow> 'a list" where
  "insert_at i k ks = take i ks @ [k] @ drop i ks"

text \<open>The schema after a response of \<open>n\<close> values (the \<^verbatim>\<open>if/elif\<close> chain of \<^verbatim>\<open>get\<close>).\<close>

definition adjust_keys :: "string list \<Rightarrow> nat \<Rightarrow> string list" where
  "adjust_keys ks n =
     (if n = 5 \<and> length ks = 6 then del_second_last ks
      else if n = 7 \<and> length ks = 6 then insert_at 5 ''total flow'' ks
      else if n = 2 \<and> length ks = 6 then insert_at 1 ''setpoint'' ks
      else ks)"

type_synonym reading = "(string \<times> py_value) list"

text \<open>\<^verbatim>\<open>FlowMeter.get\<close>. After \<open>strip_overrange\<close> has returned, \<open>values\<close> is not
  empty, so \<^verbatim>\<open>values[-1]\<close> is its last element.\<close>

definition get :: "'a flow_meter_scheme \<Rightarrow> (error + reading) \<times> 'a flow_meter_scheme" where
  "get s =
     (if \<not> open_m s then (Inl NotOpenError, s)
      else
        let (line, hw') = write_and_read (hw s) (unit_id s);
            s1 = s\<lparr>hw := hw'\<rparr> in
        (case line of
          None \<Rightarrow> (Inl AttributeError, s1)
        | Some l \<Rightarrow>
           (case py_split l of
              [] \<Rightarrow> (Inl IndexError, s1)
            | unit # values0 \<Rightarrow>
               (case strip_overrange values0 of
                  Inl e \<Rightarrow> (Inl e, s1)
                | Inr values1 \<Rightarrow>
                    if unit \<noteq> unit_id s then (Inl UnitMismatch, s1)
                    else
                      let lock = (upper (last values1) = ''LCK'');
                          values = (if lock then butlast values1 else values1);
                          ks = adjust_keys (keys s) (length values)
                      in (Inr (dict_of (zip ks (map coerce values))),
                          s1\<lparr>button_lock := Some lock, keys := ks\<rparr>)))))"


text \<open>\<^verbatim>\<open>FlowMeter.get_firmware\<close>: the answer is cached, also when it is \<^verbatim>\<open>None\<close>
  (and then asked for again the next time).\<close>

definition get_firmware ::
  "'a flow_meter_scheme \<Rightarrow> (error + string option) \<times> 'a flow_meter_scheme" where
  "get_firmware s =
     (case firmware s of
        Some f \<Rightarrow> (Inr (Some f), s)
      | None \<Rightarrow>
          if \<not> open_m s then (Inl NotOpenError, s)
          else
            let (line, hw') = write_and_read (hw s) (unit_id s @ ''VE'') in
            (Inr line, s\<lparr>hw := hw', firmware := line\<rparr>))"

text \<open>The argument of \<^verbatim>\<open>set_gas\<close>: a name or a number.\<close>

datatype gas_arg = GasName string | GasNumber int

text \<open>\<^verbatim>\<open>FlowMeter.set_gas\<close>. The second command is the source's string
  \<^verbatim>\<open>'f{self.unit}$$R46'\<close>, which is not an f-string.\<close>

definition set_gas ::
  "'a flow_meter_scheme \<Rightarrow> gas_arg \<Rightarrow> (error + unit) \<times> 'a flow_meter_scheme" where
  "set_gas s gas =
     (if \<not> open_m s then (Inl NotOpenError, s)
      else case (case gas of
                   GasName g \<Rightarrow> if g \<notin> set gases then Inl GasNotSupported
                                else Inr (int (index gases g))
                 | GasNumber n \<Rightarrow> Inr n) of
        Inl e \<Rightarrow> (Inl e, s)
      | Inr gas_number \<Rightarrow>
         (let (_, hw1) = write_and_read (hw s) (unit_id s @ ''$$W46='' @ str_int gas_number);
              (reg46, hw2) = write_and_read hw1 ''f{self.unit}$$R46'';
              s2 = s\<lparr>hw := hw2\<rparr> in
          (case reg46 of
              None \<Rightarrow> (Inl AttributeError, s2)
            | Some l \<Rightarrow>
               (if py_split l = [] then (Inl IndexError, s2)
                else case py_int (last (py_split l)) of
                   None \<Rightarrow> (Inl NotANumber, s2)
                 | Some v \<Rightarrow>
                     let reg46_gasbit = and v 511 in
                     if gas_number \<noteq> reg46_gasbit then (Inl CannotSetGas, s2)
                     else (Inr (), s2)))))"

text \<open>\<^verbatim>\<open>FlowMeter.create_mix\<close>. The mix is a \<^verbatim>\<open>dict\<close> from gas names to integer
  percentages, given as the list of its items.\<close>

definition create_mix ::
  "'a flow_meter_scheme \<Rightarrow> int \<Rightarrow> string \<Rightarrow> (string \<times> int) list
     \<Rightarrow> (error + unit) \<times> 'a flow_meter_scheme" where
  "create_mix s mix_no name mix =
     (if \<not> open_m s then (Inl NotOpenError, s)
      else case get_firmware s of
        (Inl e, s1) \<Rightarrow> (Inl e, s1)
      | (Inr None, s1) \<Rightarrow> (Inl TypeError, s1)
      | (Inr (Some fw), s1) \<Rightarrow>
          if list_ex (\<lambda>v. contains v fw) [''2v'', ''3v'', ''4v'', ''GP'']
            then (Inl ComposerUnsupported, s1)
          else if mix_no < 236 \<or> mix_no > 255 then (Inl MixNumberRange, s1)
          else if sum_list (map snd mix) \<noteq> 100 then (Inl MixPercentages, s1)
          else if list_ex (\<lambda>gas. gas \<notin> set gases) (map fst mix) then (Inl GasNotSupported, s1)
          else
            let gas_list = join '' '' (map (\<lambda>(gas, percent).
                             join '' '' [str_int percent, str_nat (index gases gas)]) mix);
                command = join '' '' [unit_id s, ''GM'', name, str_int mix_no, gas_list];
                (line, hw') = write_and_read (hw s1) command
            in if line = Some ''?'' then (Inl UnableToCreateMix, s1\<lparr>hw := hw'\<rparr>)
               else (Inr (), s1\<lparr>hw := hw'\<rparr>))"

text \<open>\<^verbatim>\<open>FlowMeter.close\<close>: the source names \<^verbatim>\<open>self.hw.close\<close> without calling it.\<close>

definition close :: "'a flow_meter_scheme \<Rightarrow> 'a flow_meter_scheme" where
  "close s = (if \<not> open_m s then s else s\<lparr>open_m := False\<rparr>)"

subsection \<open>\<^verbatim>\<open>driver.FlowController\<close>\<close>

record flow_controller = flow_meter +
  control_point :: "string option"

definition registers :: "(string \<times> int) list" where
  "registers = [(''mass flow'', 37), (''vol flow'', 36), (''abs pressure'', 34),
                (''gauge pressure'', 38), (''diff pressure'', 39)]"


text \<open>\<^verbatim>\<open>FlowController._set_setpoint\<close>. A line of fewer than six tokens gives
  \<^verbatim>\<open>IndexError\<close>, which the source catches (\<^verbatim>\<open>current = None\<close>).\<close>

definition set_setpoint ::
  "'a flow_controller_scheme \<Rightarrow> rat \<Rightarrow> (error + unit) \<times> 'a flow_controller_scheme" where
  "set_setpoint s setpoint =
     (if \<not> open_m s then (Inl NotOpenError, s)
      else
        let (line, hw') = write_and_read (hw s) (unit_id s @ ''S'' @ fmt2 setpoint);
            s1 = s\<lparr>hw := hw'\<rparr> in
        (case line of
          None \<Rightarrow> (Inl AttributeError, s1)
        | Some l \<Rightarrow>
            if length (py_split l) \<le> 5 then (Inr (), s1)
            else (case py_float (py_split l ! 5) of
               None \<Rightarrow> (Inl NotANumber, s1)
             | Some current \<Rightarrow>
                 if abs (current - setpoint) > 1 / 100 then (Inl CouldNotSetSetpoint, s1)
                 else (Inr (), s1))))"

text \<open>\<^verbatim>\<open>FlowController._set_control_point\<close>.\<close>

definition set_control_point ::
  "'a flow_controller_scheme \<Rightarrow> string \<Rightarrow> (error + unit) \<times> 'a flow_controller_scheme" where
  "set_control_point s point =
     (case map_of registers point of
        None \<Rightarrow> (Inl BadControlPoint, s)
      | Some reg \<Rightarrow>
         (let (line, hw') = write_and_read (hw s) (unit_id s @ ''W122='' @ str_int reg);
              s1 = s\<lparr>hw := hw'\<rparr> in
          (case line of
              None \<Rightarrow> (Inl AttributeError, s1)
            | Some l \<Rightarrow>
               (case py_int (after_last CHR ''='' l) of
                  None \<Rightarrow> (Inl NotANumber, s1)
                | Some v \<Rightarrow>
                    if v \<noteq> reg then (Inl CouldNotSetControlPoint, s1)
                    else (Inr (), s1\<lparr>control_point := Some point\<rparr>)))))"

text \<open>\<^verbatim>\<open>FlowController.set_flow_rate\<close> and \<^verbatim>\<open>FlowController.set_pressure\<close>.\<close>

definition set_flow_rate ::
  "'a flow_controller_scheme \<Rightarrow> rat \<Rightarrow> (error + unit) \<times> 'a flow_controller_scheme" where
  "set_flow_rate s flowrate =
     (if control_point s \<in> set [Some ''abs pressure'', Some ''gauge pressure'',
                                Some ''diff pressure''] then
        (case set_setpoint s 0 of
           (Inl e, s1) \<Rightarrow> (Inl e, s1)
         | (Inr _, s1) \<Rightarrow>
            (case set_control_point s1 ''mass flow'' of
               (Inl e, s2) \<Rightarrow> (Inl e, s2)
             | (Inr _, s2) \<Rightarrow> set_setpoint s2 flowrate))
      else set_setpoint s flowrate)"


text \<open>The shapes of a response line, for stating what \<^verbatim>\<open>get\<close> does with it: a token is
  an overrange marker or the lock flag when its upper-case form is one of the reserved
  words; the tokens after the unit are \<open>vals @ lk @ ovs\<close>, the values, then at most one
  lock flag, then the overrange markers. Without a lock flag the last value is itself
  neither (else the loop or the lock test would take it).\<close>

definition is_overrange :: "string \<Rightarrow> bool" where
  "is_overrange t = (upper t \<in> set [''MOV'', ''VOV'', ''POV''])"

definition is_lock :: "string \<Rightarrow> bool" where
  "is_lock t = (upper t = ''LCK'')"

definition framed :: "string list \<Rightarrow> string list \<Rightarrow> string list \<Rightarrow> bool" where
  "framed vals lk ovs =
     (list_all is_overrange ovs \<and> list_all is_lock lk \<and> length lk \<le> 1 \<and>
      (lk = [] \<longrightarrow> vals \<noteq> [] \<and> \<not> is_overrange (last vals) \<and> \<not> is_lock (last vals)))"

section \<open>Properties\<close>

subsection \<open>The client\<close>



lemma wr_written:
  "written (snd (write_and_read c cmd)) = written c
   \<or> written (snd (write_and_read c cmd)) = written c @ [cmd @ eol c]"
  by (auto simp: write_and_read_def handle_connection_def handle_communication_def
      timed_out_def write_hw_def close_hw_def Let_def
      split: prod.splits conn_result.splits comm_result.splits)






subsection \<open>Reading\<close>







lemma dict_set_fresh: "k \<notin> fst ` set d \<Longrightarrow> dict_set k v d = d @ [(k, v)]"
  by (induction d) auto

lemma foldl_dict_distinct:
  "distinct (map fst (d @ kvs)) \<Longrightarrow> foldl (\<lambda>d (k, v). dict_set k v d) d kvs = d @ kvs"
proof (induction kvs arbitrary: d)
  case Nil
  then show ?case by simp
next
  case (Cons kv kvs)
  obtain k v where kv: "kv = (k, v)" by (cases kv)
  have fresh: "k \<notin> fst ` set d" using Cons.prems kv by auto
  have "distinct (map fst ((d @ [(k, v)]) @ kvs))" using Cons.prems kv by simp
  from Cons.IH [OF this] show ?case
    by (simp add: kv dict_set_fresh [OF fresh])
qed

lemma dict_of_distinct: "distinct (map fst kvs) \<Longrightarrow> dict_of kvs = kvs"
  using foldl_dict_distinct [of "[]" kvs] by (simp add: dict_of_def)

lemma dict_of_zip: "distinct ks \<Longrightarrow> dict_of (zip ks vs) = zip ks vs"
  by (rule dict_of_distinct) (simp add: map_fst_zip_take)

lemma strip_overrange_snoc:
  "is_overrange ov \<Longrightarrow> strip_overrange (ys @ [ov]) = strip_overrange ys"
  by (subst strip_overrange.simps) (simp add: is_overrange_def)

lemma strip_overrange_markers:
  "list_all is_overrange ovs \<Longrightarrow> strip_overrange (xs @ ovs) = strip_overrange xs"
proof (induction ovs rule: rev_induct)
  case Nil
  then show ?case by simp
next
  case (snoc ov ovs)
  have "strip_overrange ((xs @ ovs) @ [ov]) = strip_overrange (xs @ ovs)"
    using snoc.prems by (intro strip_overrange_snoc) simp
  then show ?case using snoc by simp
qed

lemma strip_overrange_stop:
  "xs \<noteq> [] \<Longrightarrow> \<not> is_overrange (last xs) \<Longrightarrow> strip_overrange xs = Inr xs"
  by (subst strip_overrange.simps) (simp add: is_overrange_def)

lemma lock_not_overrange: "is_lock t \<Longrightarrow> \<not> is_overrange t"
  by (simp add: is_lock_def is_overrange_def)

lemma strip_overrange_framed:
  assumes "framed vals lk ovs"
  shows "strip_overrange (vals @ lk @ ovs) = Inr (vals @ lk)"
    and "vals @ lk \<noteq> []" and "is_lock (last (vals @ lk)) = (lk \<noteq> [])"
    and "(if lk \<noteq> [] then butlast (vals @ lk) else vals @ lk) = vals"
proof -
  have ne: "vals @ lk \<noteq> []" using assms by (auto simp: framed_def)
  have l1: "lk = [] \<or> (\<exists>t. lk = [t] \<and> is_lock t)"
    using assms by (cases lk) (auto simp: framed_def)
  have nov: "\<not> is_overrange (last (vals @ lk))"
    using assms l1 by (auto simp: framed_def lock_not_overrange)
  have "strip_overrange ((vals @ lk) @ ovs) = strip_overrange (vals @ lk)"
    using assms by (intro strip_overrange_markers) (simp add: framed_def)
  then show "strip_overrange (vals @ lk @ ovs) = Inr (vals @ lk)"
    using strip_overrange_stop [OF ne nov] by simp
  show "vals @ lk \<noteq> []" by (rule ne)
  show "is_lock (last (vals @ lk)) = (lk \<noteq> [])"
    using assms l1 by (auto simp: framed_def)
  show "(if lk \<noteq> [] then butlast (vals @ lk) else vals @ lk) = vals"
    using l1 by auto
qed

lemma get_framed:
  assumes "open_m s" and "write_and_read (hw s) (unit_id s) = (Some l, c')"
    and "py_split l = unit_id s # vals @ lk @ ovs" and "framed vals lk ovs"
  shows "get s = (Inr (dict_of (zip (adjust_keys (keys s) (length vals)) (map coerce vals))),
                  s\<lparr>hw := c', button_lock := Some (lk \<noteq> []),
                    keys := adjust_keys (keys s) (length vals)\<rparr>)"
proof -
  note f = strip_overrange_framed [OF assms(4)]
  have lock: "(upper (last (vals @ lk)) = ''LCK'') = (lk \<noteq> [])"
    using f(3) by (simp add: is_lock_def)
  show ?thesis
    unfolding get_def using assms(1,2,3) f(1) lock f(4)
    by (simp add: Let_def)
qed

lemma get_no_line:
  "open_m s \<Longrightarrow> fst (write_and_read (hw s) (unit_id s)) = None \<Longrightarrow>
   get s = (Inl AttributeError, s\<lparr>hw := snd (write_and_read (hw s) (unit_id s))\<rparr>)"
  by (cases "write_and_read (hw s) (unit_id s)") (simp add: get_def Let_def)

lemma get_unit_mismatch:
  assumes "open_m s" and "write_and_read (hw s) (unit_id s) = (Some l, c')"
    and "py_split l = u # vals @ lk @ ovs" and "framed vals lk ovs" and "u \<noteq> unit_id s"
  shows "fst (get s) = Inl UnitMismatch"
  unfolding get_def using assms(1,2,3,5) strip_overrange_framed(1) [OF assms(4)]
  by (simp add: Let_def)

subsection \<open>The claims about the transport and the session\<close>

text \<open>
  C10. When the exchange of a \<^verbatim>\<open>get\<close> on an open meter yields no response
  (\<^verbatim>\<open>_write_and_read\<close> returns \<^verbatim>\<open>None\<close>: the connection could not be opened, the
  exchange failed or the read was incomplete), \<^verbatim>\<open>get\<close> raises \<^verbatim>\<open>AttributeError\<close>
  from \<^verbatim>\<open>line.split()\<close>; it returns no mapping and raises no other error.
\<close>

theorem get_without_response:
  assumes "open_m s" and "fst (write_and_read (hw s) (unit_id s)) = None"
  shows "fst (get s) = Inl AttributeError"
  using get_no_line [OF assms] by simp

theorem get_without_response_witness:
  "open_m (new_flow_meter (script [(Connected, ReadFailed)]) ''A'')
   \<and> fst (write_and_read (hw (new_flow_meter (script [(Connected, ReadFailed)]) ''A''))
            (unit_id (new_flow_meter (script [(Connected, ReadFailed)]) ''A''))) = None
   \<and> fst (get (new_flow_meter (script [(Connected, ReadFailed)]) ''A'')) = Inl AttributeError"
proof -
  let ?m = "new_flow_meter (script [(Connected, ReadFailed)]) ''A''"
  have h1: "open_m ?m" by (simp add: new_flow_meter_def)
  have h2: "fst (write_and_read (hw ?m) (unit_id ?m)) = None"
    by (simp add: new_flow_meter_def new_client_def write_and_read_def handle_connection_def
        handle_communication_def timed_out_def write_hw_def close_hw_def)
  show ?thesis using h1 h2 get_without_response [OF h1 h2] by simp
qed

text \<open>
  C6. A response whose echoed unit differs from the session's unit should raise the
  unit-mismatch error whatever follows the unit. The source tests \<^verbatim>\<open>values[-1]\<close> in
  the overrange loop before it compares the units, so a response with no value token
  (or only overrange markers) after a foreign unit raises \<^verbatim>\<open>IndexError\<close> instead:
  here the session's unit is A and the response is the line \<^verbatim>\<open>B\<close>.
\<close>

theorem get_foreign_unit_no_values:
  "fst (get (new_flow_meter (script [(Connected, Line ''B'')]) ''A'')) = Inl IndexError"
  by code_simp








lemma dict_of_zip_take:
  "distinct (take (length vs) ks) \<Longrightarrow> dict_of (zip ks vs) = zip ks vs"
  by (rule dict_of_distinct) (auto simp: map_fst_zip_take min_def)

lemma length_adjust_keys:
  "length ks = 6 \<Longrightarrow> length (adjust_keys ks n) = (if n = 5 then 5 else if n = 7 \<or> n = 2 then 7 else 6)"
  by (simp add: adjust_keys_def del_second_last_def insert_at_def)

lemma adjust_keys_baseline:
  "adjust_keys baseline_keys 5 = [''pressure'', ''temperature'', ''volumetric_flow'', ''mass_flow'', ''gas'']"
  "adjust_keys baseline_keys 6 = baseline_keys"
  "adjust_keys baseline_keys 7 = [''pressure'', ''temperature'', ''volumetric_flow'', ''mass_flow'',
     ''setpoint'', ''total flow'', ''gas'']"
  "adjust_keys baseline_keys 2 = [''pressure'', ''setpoint'', ''temperature'', ''volumetric_flow'',
     ''mass_flow'', ''setpoint'', ''gas'']"
  by (simp_all add: adjust_keys_def del_second_last_def insert_at_def baseline_keys_def)

lemma distinct_take_adjust_keys:
  "n \<in> {2, 5, 6, 7} \<Longrightarrow> distinct (take n (adjust_keys baseline_keys n))"
  by (elim insertE emptyE; simp add: adjust_keys_baseline; simp add: baseline_keys_def)

subsection \<open>The claims about \<^verbatim>\<open>get\<close>\<close>

text \<open>
  C3, as the code has it. After a successful \<^verbatim>\<open>get\<close> that parsed \<open>n\<close> value tokens
  (overrange markers and the lock token stripped) the schema \<open>keys\<close> is the old schema
  adjusted by the \<^verbatim>\<open>if/elif\<close> chain: its length is \<open>n\<close> when the schema had 6 fields and
  \<open>n\<close> is 5, 6 or 7; with 6 fields and 2 values it grows to 7; in every other case (a
  schema that no longer has 6 fields, or another count) it is left as it was.
\<close>

theorem keys_after_get:
  "open_m s \<and> write_and_read (hw s) (unit_id s) = (Some l, c')
     \<and> py_split l = unit_id s # vals @ lk @ ovs \<and> framed vals lk ovs
   \<longrightarrow> keys (snd (get s)) = adjust_keys (keys s) (length vals)
     \<and> (length (keys s) = 6 \<and> length vals \<in> {5, 6, 7}
          \<longrightarrow> length (keys (snd (get s))) = length vals)
     \<and> (length (keys s) = 6 \<and> length vals = 2 \<longrightarrow> length (keys (snd (get s))) = 7)
     \<and> (length (keys s) \<noteq> 6 \<or> length vals \<notin> {2, 5, 7} \<longrightarrow> keys (snd (get s)) = keys s)"
proof (intro impI)
  assume a: "open_m s \<and> write_and_read (hw s) (unit_id s) = (Some l, c')
     \<and> py_split l = unit_id s # vals @ lk @ ovs \<and> framed vals lk ovs"
  have k: "keys (snd (get s)) = adjust_keys (keys s) (length vals)"
    using a by (simp add: get_framed [of s l c' vals lk ovs])
  show "keys (snd (get s)) = adjust_keys (keys s) (length vals)
     \<and> (length (keys s) = 6 \<and> length vals \<in> {5, 6, 7}
          \<longrightarrow> length (keys (snd (get s))) = length vals)
     \<and> (length (keys s) = 6 \<and> length vals = 2 \<longrightarrow> length (keys (snd (get s))) = 7)
     \<and> (length (keys s) \<noteq> 6 \<or> length vals \<notin> {2, 5, 7} \<longrightarrow> keys (snd (get s)) = keys s)"
    unfolding k by (auto simp: length_adjust_keys) (simp_all add: adjust_keys_def)
qed

theorem keys_after_get_witness:
  "keys (snd (get (new_flow_meter (script [(Connected, Line ''A 14.2 25.1 2.502 2.499 A MOV'')]) ''A'')))
     = adjust_keys (keys (new_flow_meter (script [(Connected, Line ''A 14.2 25.1 2.502 2.499 A MOV'')]) ''A''))
         (length [''14.2'', ''25.1'', ''2.502'', ''2.499'', ''A''])
   \<and> length (keys (snd (get (new_flow_meter
        (script [(Connected, Line ''A 14.2 25.1 2.502 2.499 A MOV'')]) ''A''))))
     = length [''14.2'', ''25.1'', ''2.502'', ''2.499'', ''A'']"
proof -
  let ?s = "new_flow_meter (script [(Connected, Line ''A 14.2 25.1 2.502 2.499 A MOV'')]) ''A''"
  let ?l = "''A 14.2 25.1 2.502 2.499 A MOV''"
  let ?vals = "[''14.2'', ''25.1'', ''2.502'', ''2.499'', ''A'']"
  have h1: "open_m ?s" by code_simp
  have "fst (write_and_read (hw ?s) (unit_id ?s)) = Some ?l" by code_simp
  then have h2: "write_and_read (hw ?s) (unit_id ?s)
      = (Some ?l, snd (write_and_read (hw ?s) (unit_id ?s)))"
    by (metis prod.collapse)
  have h3: "py_split ?l = unit_id ?s # ?vals @ [] @ [''MOV'']" by code_simp
  have h4: "framed ?vals [] [''MOV'']" by code_simp
  have h5: "length (keys ?s) = 6 \<and> length ?vals \<in> {5, 6, 7}" by code_simp
  from keys_after_get [of ?s ?l "snd (write_and_read (hw ?s) (unit_id ?s))" ?vals "[]" "[''MOV'']"]
    h1 h2 h3 h4 h5
  show ?thesis by blast
qed

theorem keys_length_counterexample:
  "fst (get (new_flow_meter (script [(Connected, Line ''A 14.2 25.1 2.502 2.499 LCK'')]) ''A''))
     = Inr [(''pressure'', Num (71 / 5)), (''temperature'', Num (251 / 10)),
            (''volumetric_flow'', Num (1251 / 500)), (''mass_flow'', Num (2499 / 1000))]
   \<and> length (keys (snd (get (new_flow_meter
        (script [(Connected, Line ''A 14.2 25.1 2.502 2.499 LCK'')]) ''A'')))) = 6"
  by code_simp

text \<open>
  C4. Against the 6-field baseline schema, a response with 5 value tokens (markers
  stripped) is mapped without \<open>setpoint\<close>, one with 6 tokens on the baseline schema, one
  with 7 tokens with \<open>total flow\<close> inserted at position 5, and one with 2 tokens has
  \<open>setpoint\<close> inserted at position 1; the mapping pairs the keys with the coerced tokens
  in order and has as many entries as there are tokens. The response
  \<^verbatim>\<open>A 14.2 25.1 2.502 2.499 A\<close> yields pressure 14.2, temperature 25.1, volumetric_flow
  2.502, mass_flow 2.499 and gas A.
\<close>

theorem get_baseline_schema:
  "(open_m s \<and> keys s = baseline_keys \<and> write_and_read (hw s) (unit_id s) = (Some l, c')
      \<and> py_split l = unit_id s # vals @ lk @ ovs \<and> framed vals lk ovs
    \<longrightarrow> (length vals = 5 \<longrightarrow> fst (get s) = Inr (zip
            [''pressure'', ''temperature'', ''volumetric_flow'', ''mass_flow'', ''gas'']
            (map coerce vals)))
      \<and> (length vals = 6 \<longrightarrow> fst (get s) = Inr (zip
            [''pressure'', ''temperature'', ''volumetric_flow'', ''mass_flow'', ''setpoint'',
             ''gas'']
            (map coerce vals)))
      \<and> (length vals = 7 \<longrightarrow> fst (get s) = Inr (zip
            [''pressure'', ''temperature'', ''volumetric_flow'', ''mass_flow'', ''setpoint'',
             ''total flow'', ''gas'']
            (map coerce vals)))
      \<and> (length vals = 2 \<longrightarrow> fst (get s) = Inr (zip [''pressure'', ''setpoint'']
            (map coerce vals)))
      \<and> (length vals \<in> {2, 5, 6, 7}
          \<longrightarrow> (\<exists>m. fst (get s) = Inr m \<and> length m = length vals)))
   \<and> fst (get (new_flow_meter (script [(Connected, Line ''A 14.2 25.1 2.502 2.499 A'')]) ''A''))
     = Inr [(''pressure'', Num (142 / 10)), (''temperature'', Num (251 / 10)),
            (''volumetric_flow'', Num (2502 / 1000)), (''mass_flow'', Num (2499 / 1000)),
            (''gas'', Str ''A'')]"
proof (intro conjI impI)
  show "fst (get (new_flow_meter (script [(Connected, Line ''A 14.2 25.1 2.502 2.499 A'')]) ''A''))
     = Inr [(''pressure'', Num (142 / 10)), (''temperature'', Num (251 / 10)),
            (''volumetric_flow'', Num (2502 / 1000)), (''mass_flow'', Num (2499 / 1000)),
            (''gas'', Str ''A'')]"
    by code_simp
next
  assume a: "open_m s \<and> keys s = baseline_keys
      \<and> write_and_read (hw s) (unit_id s) = (Some l, c')
      \<and> py_split l = unit_id s # vals @ lk @ ovs \<and> framed vals lk ovs"
  have g: "fst (get s) = Inr (dict_of (zip (adjust_keys baseline_keys (length vals))
      (map coerce vals)))"
    using a by (simp add: get_framed [of s l c' vals lk ovs])
  {
    assume n: "length vals = 5"
    show "fst (get s) = Inr (zip
            [''pressure'', ''temperature'', ''volumetric_flow'', ''mass_flow'', ''gas'']
            (map coerce vals))"
      unfolding g n adjust_keys_baseline by (simp add: dict_of_zip)
  }
  {
    assume n: "length vals = 6"
    show "fst (get s) = Inr (zip
            [''pressure'', ''temperature'', ''volumetric_flow'', ''mass_flow'', ''setpoint'',
             ''gas'']
            (map coerce vals))"
      unfolding g n adjust_keys_baseline by (simp add: dict_of_zip baseline_keys_def)
  }
  {
    assume n: "length vals = 7"
    show "fst (get s) = Inr (zip
            [''pressure'', ''temperature'', ''volumetric_flow'', ''mass_flow'', ''setpoint'',
             ''total flow'', ''gas'']
            (map coerce vals))"
      unfolding g n adjust_keys_baseline by (simp add: dict_of_zip)
  }
  {
    assume n: "length vals = 2"
    then obtain a b where v: "vals = [a, b]"
      by (auto simp: length_Suc_conv numeral_2_eq_2)
    have "dict_of (zip (adjust_keys baseline_keys 2) (map coerce vals))
        = zip (adjust_keys baseline_keys 2) (map coerce vals)"
      by (rule dict_of_zip_take) (simp add: v adjust_keys_baseline)
    then show "fst (get s) = Inr (zip [''pressure'', ''setpoint''] (map coerce vals))"
      unfolding g n by (simp add: v adjust_keys_baseline)
  }
  {
    assume n: "length vals \<in> {2, 5, 6, 7}"
    have "dict_of (zip (adjust_keys baseline_keys (length vals)) (map coerce vals))
        = zip (adjust_keys baseline_keys (length vals)) (map coerce vals)"
      using n by (intro dict_of_zip_take) (simp add: distinct_take_adjust_keys)
    moreover have "length (zip (adjust_keys baseline_keys (length vals)) (map coerce vals))
        = length vals"
      using n by (auto simp: length_adjust_keys baseline_keys_def)
    ultimately show "\<exists>m. fst (get s) = Inr m \<and> length m = length vals"
      unfolding g by simp
  }
qed

theorem get_baseline_schema_witness:
  "fst (get (new_flow_meter
       (script [(Connected, Line ''A 14.70 25.00 0.00 0.00 0.00 0.00 Air'')]) ''A''))
     = Inr (zip [''pressure'', ''temperature'', ''volumetric_flow'', ''mass_flow'', ''setpoint'',
                 ''total flow'', ''gas'']
                (map coerce [''14.70'', ''25.00'', ''0.00'', ''0.00'', ''0.00'', ''0.00'', ''Air'']))
   \<and> fst (get (new_flow_meter (script [(Connected, Line ''A 14.70 0.00 lck POV'')]) ''A''))
     = Inr (zip [''pressure'', ''setpoint''] (map coerce [''14.70'', ''0.00'']))"
proof -
  let ?s = "new_flow_meter
       (script [(Connected, Line ''A 14.70 25.00 0.00 0.00 0.00 0.00 Air'')]) ''A''"
  let ?l = "''A 14.70 25.00 0.00 0.00 0.00 0.00 Air''"
  let ?vals = "[''14.70'', ''25.00'', ''0.00'', ''0.00'', ''0.00'', ''0.00'', ''Air'']"
  let ?t = "new_flow_meter (script [(Connected, Line ''A 14.70 0.00 lck POV'')]) ''A''"
  let ?m = "''A 14.70 0.00 lck POV''"
  let ?ws = "[''14.70'', ''0.00'']"
  have h1: "open_m ?s \<and> keys ?s = baseline_keys" by (simp add: new_flow_meter_def)
  have "fst (write_and_read (hw ?s) (unit_id ?s)) = Some ?l" by code_simp
  then have h2: "write_and_read (hw ?s) (unit_id ?s)
      = (Some ?l, snd (write_and_read (hw ?s) (unit_id ?s)))"
    by (metis prod.collapse)
  have h3: "py_split ?l = unit_id ?s # ?vals @ [] @ []" by code_simp
  have h4: "framed ?vals [] []" by code_simp
  have h5: "length ?vals = 7" by simp
  have k1: "open_m ?t \<and> keys ?t = baseline_keys" by (simp add: new_flow_meter_def)
  have "fst (write_and_read (hw ?t) (unit_id ?t)) = Some ?m" by code_simp
  then have k2: "write_and_read (hw ?t) (unit_id ?t)
      = (Some ?m, snd (write_and_read (hw ?t) (unit_id ?t)))"
    by (metis prod.collapse)
  have k3: "py_split ?m = unit_id ?t # ?ws @ [''lck''] @ [''POV'']" by code_simp
  have k4: "framed ?ws [''lck''] [''POV'']" by code_simp
  have k5: "length ?ws = 2" by simp
  from get_baseline_schema
         [of ?s ?l "snd (write_and_read (hw ?s) (unit_id ?s))" ?vals "[]" "[]"]
       h1 h2 h3 h4 h5
  have a: "fst (get ?s) = Inr (zip [''pressure'', ''temperature'', ''volumetric_flow'',
      ''mass_flow'', ''setpoint'', ''total flow'', ''gas''] (map coerce ?vals))"
    by blast
  from get_baseline_schema
         [of ?t ?m "snd (write_and_read (hw ?t) (unit_id ?t))" ?ws "[''lck'']" "[''POV'']"]
       k1 k2 k3 k4 k5
  have b: "fst (get ?t) = Inr (zip [''pressure'', ''setpoint''] (map coerce ?ws))"
    by blast
  from a b show ?thesis by (rule conjI)
qed



text \<open>
  C9. \<^verbatim>\<open>set_gas\<close> should read register 46 back with a command addressed to the
  session's unit. The source sends the string \<^verbatim>\<open>'f{self.unit}$$R46'\<close> as it stands (the
  \<^verbatim>\<open>f\<close> is inside the quotes, so nothing is interpolated): for unit A and the gas Air
  the two commands written are \<^verbatim>\<open>A$$W46=0\<close> and \<^verbatim>\<open>f{self.unit}$$R46\<close>, and a device that
  does not answer the second one makes \<^verbatim>\<open>set_gas\<close> fail on the missing response.
\<close>

theorem set_gas_read_back_command:
  "written (hw (snd (set_gas
       (new_flow_meter (script [(Connected, Line ''A   046 = 0''), (Connected, ReadFailed)]) ''A'')
       (GasName ''Air''))))
     = [''A$$W46=0'' @ [CHR 0x0D], ''f{self.unit}$$R46'' @ [CHR 0x0D]]
   \<and> fst (set_gas
       (new_flow_meter (script [(Connected, Line ''A   046 = 0''), (Connected, ReadFailed)]) ''A'')
       (GasName ''Air'')) = Inl AttributeError"
  by code_simp

subsection \<open>The claims about the commands\<close>














lemma create_mix_example:
  "written (hw (snd (create_mix
       ((new_flow_meter (script [(Connected, Line ''A 240 Mix'')]) ''A'')
          \<lparr>firmware := Some ''5v12''\<rparr>)
       240 ''Mix'' [(''N2'', 50), (''Ar'', 50)])))
     = [''A GM Mix 240 50 8 50 1'' @ [CHR 0x0D]]"
  by code_simp

end
